theory Spec2Isabelle
  imports Main
begin

section \<open>Himawari: event watchers, supervisor wrapper, dispatcher and handler\<close>

text \<open>
  A shallow embedding of \<^verbatim>\<open>himawari.py\<close>. Python objects are records, mutation is
  explicit state passing, and a raised exception is a value returned beside the state the
  call left behind (Python mutates in place, so the state changes made before a raise
  persist). What the operating system does is not decided here: whether a command can be
  launched by \<^verbatim>\<open>subprocess.call\<close>, \<^verbatim>\<open>subprocess.check_output\<close> or
  \<^verbatim>\<open>subprocess.Popen\<close>, what it prints, and whether \<^verbatim>\<open>os.kill\<close> succeeds are
  outcomes given by the environment, and a call that raises there raises here. The
  \<^verbatim>\<open>logger\<close> calls and \<^verbatim>\<open>sock.recv\<close> are recorded and return.
\<close>

subsection \<open>Values, exceptions, messages and recorded actions\<close>

type_synonym bytes = string

datatype exception =
    KeyError
  | ValueError
  | IndexError
  | TypeError
  | AttributeError
  | StopIteration
  | UnicodeDecodeError
  | RuntimeError string
  | OSError string

text \<open>
  Python values that travel in messages and log records. \<open>PExcInfo e\<close> is the triple
  (type, value, traceback) that \<^verbatim>\<open>sys.exc_info()\<close> gives while \<open>e\<close> is being handled.
  A \<^verbatim>\<open>str\<close> is held as its UTF-8 bytes.
\<close>

datatype pyval = PStr string | PBytes bytes | PExcInfo exception

text \<open>An item of \<^verbatim>\<open>message_queue\<close>: the pair \<^verbatim>\<open>(event, args)\<close>.\<close>

type_synonym message = "string \<times> pyval list"

datatype level = DEBUG | INFO | WARN | ERROR

text \<open>
  What is recorded: a \<^verbatim>\<open>logger\<close> call, a \<^verbatim>\<open>subprocess.call\<close> invoked with its
  argument vector (whether or not the command could be launched), a process started by
  \<^verbatim>\<open>subprocess.Popen\<close>, a signal sent by \<^verbatim>\<open>os.kill\<close>, and a message that the feeder
  thread of the queue could not pickle and dropped.
\<close>

datatype action =
    Log level string "pyval list"
  | Call "string list"
  | Popen "string list"
  | Kill nat
  | Dropped message

definition EV_TABLET_MODE :: bytes where
  "EV_TABLET_MODE = '' 40D1BF71-A82D-4E''"

definition newline :: char where
  "newline = CHR 0x0A"

definition tab :: char where
  "tab = CHR 0x09"

subsection \<open>String primitives of Python used by the source\<close>

text \<open>\<^verbatim>\<open>s.startswith(p)\<close>.\<close>

definition startswith :: "string \<Rightarrow> string \<Rightarrow> bool" where
  "startswith s p = (take (length p) s = p)"

text \<open>\<^verbatim>\<open>sub in s\<close> on strings: \<^verbatim>\<open>sub\<close> occurs somewhere in \<^verbatim>\<open>s\<close>.\<close>

fun contains :: "string \<Rightarrow> string \<Rightarrow> bool" where
  "contains sub [] = (sub = [])"
| "contains sub (x # xs) = (startswith (x # xs) sub \<or> contains sub xs)"

text \<open>\<^verbatim>\<open>s.split(c)\<close> for a one-character separator: never the empty list.\<close>

fun split_on :: "char \<Rightarrow> string \<Rightarrow> string list" where
  "split_on c [] = [[]]"
| "split_on c (x # xs) =
     (if x = c then [] # split_on c xs
      else (case split_on c xs of
              [] \<Rightarrow> [[x]]
            | w # ws \<Rightarrow> (x # w) # ws))"

text \<open>
  \<^verbatim>\<open>s.split(c, 1)\<close> where \<^verbatim>\<open>c\<close> occurs in \<^verbatim>\<open>s\<close>: the part before the first
  \<^verbatim>\<open>c\<close> and the part after it.
\<close>

definition split_first :: "char \<Rightarrow> string \<Rightarrow> string \<times> string" where
  "split_first c s = (takeWhile (\<lambda>x. x \<noteq> c) s, tl (dropWhile (\<lambda>x. x \<noteq> c) s))"

text \<open>
  \<^verbatim>\<open>b.decode()\<close>: the bytes must be well-formed UTF-8 (no overlong form, no surrogate,
  nothing above U+10FFFF), else \<^verbatim>\<open>UnicodeDecodeError\<close> is raised.
\<close>

definition continuation :: "char \<Rightarrow> bool" where
  "continuation c = (0x80 \<le> (of_char c :: nat) \<and> (of_char c :: nat) \<le> 0xBF)"

definition between :: "nat \<Rightarrow> char \<Rightarrow> nat \<Rightarrow> bool" where
  "between lo c hi = (lo \<le> (of_char c :: nat) \<and> (of_char c :: nat) \<le> hi)"

fun utf8 :: "bytes \<Rightarrow> bool" where
  "utf8 [] = True"
| "utf8 [a] = between 0x00 a 0x7F"
| "utf8 [a, b] =
     (if between 0x00 a 0x7F then utf8 [b]
      else between 0xC2 a 0xDF \<and> continuation b)"
| "utf8 [a, b, c] =
     (if between 0x00 a 0x7F then utf8 [b, c]
      else if between 0xC2 a 0xDF then continuation b \<and> utf8 [c]
      else continuation c \<and>
           (between 0xE0 a 0xE0 \<and> between 0xA0 b 0xBF
            \<or> between 0xE1 a 0xEC \<and> continuation b
            \<or> between 0xED a 0xED \<and> between 0x80 b 0x9F
            \<or> between 0xEE a 0xEF \<and> continuation b))"
| "utf8 (a # b # c # d # r) =
     (if between 0x00 a 0x7F then utf8 (b # c # d # r)
      else if between 0xC2 a 0xDF then continuation b \<and> utf8 (c # d # r)
      else if between 0xE0 a 0xEF then
           continuation c \<and>
           (between 0xE0 a 0xE0 \<and> between 0xA0 b 0xBF
            \<or> between 0xE1 a 0xEC \<and> continuation b
            \<or> between 0xED a 0xED \<and> between 0x80 b 0x9F
            \<or> between 0xEE a 0xEF \<and> continuation b) \<and> utf8 (d # r)
      else continuation c \<and> continuation d \<and>
           (between 0xF0 a 0xF0 \<and> between 0x90 b 0xBF
            \<or> between 0xF1 a 0xF3 \<and> continuation b
            \<or> between 0xF4 a 0xF4 \<and> between 0x80 b 0x8F) \<and> utf8 r)"

definition decode :: "bytes \<Rightarrow> exception + string" where
  "decode b = (if utf8 b then Inr b else Inl UnicodeDecodeError)"

subsection \<open>SocketWrapper\<close>

text \<open>
  The socket is the sequence of results of its \<^verbatim>\<open>recv(4096)\<close> calls: \<open>recv k\<close> is what
  the \<open>k\<close>-th call returns. After the peer has closed the connection every further call
  returns the empty byte string. The wrapper holds its buffer and the number of
  \<^verbatim>\<open>recv\<close> calls made so far.
\<close>

record SocketWrapper =
  buffer :: bytes
  recvd :: nat

definition SocketWrapper_init :: SocketWrapper where
  "SocketWrapper_init = \<lparr>buffer = [], recvd = 0\<rparr>"

text \<open>
  \<^verbatim>\<open>read_line\<close>: the \<^verbatim>\<open>while\<close> loop may run forever, so the function is partial;
  \<open>None\<close> is "does not return".
\<close>

partial_function (option) read_line ::
  "(nat \<Rightarrow> bytes) \<Rightarrow> SocketWrapper \<Rightarrow> (bytes \<times> SocketWrapper) option" where
  "read_line recv sw =
     (if newline \<in> set (buffer sw)
      then (case split_first newline (buffer sw) of
              (ret, rest) \<Rightarrow> Some (ret, sw\<lparr>buffer := rest\<rparr>))
      else read_line recv \<lparr>buffer = buffer sw @ recv (recvd sw), recvd = Suc (recvd sw)\<rparr>)"

declare read_line.simps [code]

text \<open>A finite list of read chunks followed by the end of the stream.\<close>

definition stream_of :: "bytes list \<Rightarrow> nat \<Rightarrow> bytes" where
  "stream_of cs k = (if k < length cs then cs ! k else [])"

subsection \<open>Watcher processes\<close>

text \<open>
  What a watcher process does to the outside: the messages of this process that have
  reached \<^verbatim>\<open>message_queue\<close> (those \<^verbatim>\<open>get\<close> can return), and its recorded actions,
  both in order.
\<close>

record proc =
  queue :: "message list"
  actions :: "action list"

definition proc_init :: proc where
  "proc_init = \<lparr>queue = [], actions = []\<rparr>"

definition log_call :: "level \<Rightarrow> string \<Rightarrow> pyval list \<Rightarrow> proc \<Rightarrow> proc" where
  "log_call l fmt args p = p\<lparr>actions := actions p @ [Log l fmt args]\<rparr>"

definition subprocess_Popen :: "string list \<Rightarrow> proc \<Rightarrow> proc" where
  "subprocess_Popen argv p = p\<lparr>actions := actions p @ [Popen argv]\<rparr>"

text \<open>
  \<^verbatim>\<open>message_queue\<close> is a \<^verbatim>\<open>multiprocessing.Queue\<close>: \<^verbatim>\<open>put\<close> hands the object
  to the feeder thread of the process and returns; the feeder thread pickles it and
  writes it to the pipe. Strings and bytes can be pickled; the traceback inside an
  \<^verbatim>\<open>exc_info\<close> triple cannot, and then the feeder thread drops the object (it prints
  the error) and the message never reaches the queue.
\<close>

fun picklable :: "pyval \<Rightarrow> bool" where
  "picklable (PStr s) = True"
| "picklable (PBytes b) = True"
| "picklable (PExcInfo e) = False"

definition put :: "message \<Rightarrow> proc \<Rightarrow> proc" where
  "put m p =
     (if list_all picklable (snd m) then p\<lparr>queue := queue p @ [m]\<rparr>
      else p\<lparr>actions := actions p @ [Dropped m]\<rparr>)"

text \<open>The body of the loop of \<^verbatim>\<open>acpi_events_watcher\<close>, after \<^verbatim>\<open>read_line\<close> returned.\<close>

definition acpi_events_watcher_step :: "bytes \<Rightarrow> proc \<Rightarrow> proc" where
  "acpi_events_watcher_step event p =
     (let p1 = log_call DEBUG ''acpid event: %s'' [PBytes event] p
      in if startswith event EV_TABLET_MODE
         then put (''mode-change'', []) (log_call DEBUG ''mode change event'' [] p1)
         else p1)"

text \<open>
  \<^verbatim>\<open>acpi_events_watcher\<close> never returns; the first argument is the number of loop
  iterations observed. When \<^verbatim>\<open>read_line\<close> does not return, nothing more happens.
\<close>

fun acpi_events_watcher ::
  "nat \<Rightarrow> (nat \<Rightarrow> bytes) \<Rightarrow> SocketWrapper \<times> proc \<Rightarrow> SocketWrapper \<times> proc" where
  "acpi_events_watcher 0 recv (sw, p) = (sw, p)"
| "acpi_events_watcher (Suc n) recv (sw, p) =
     (case read_line recv sw of
        None \<Rightarrow> (sw, p)
      | Some (event, sw') \<Rightarrow>
          acpi_events_watcher n recv (sw', acpi_events_watcher_step event p))"

text \<open>
  \<^verbatim>\<open>sensor_proxy_signal_handler\<close>, the callback of \<^verbatim>\<open>dbus_events_watcher\<close>;
  \<^verbatim>\<open>changedProperties\<close> is a dictionary.
\<close>

definition sensor_proxy_signal_handler ::
  "string \<Rightarrow> (string \<rightharpoonup> pyval) \<Rightarrow> string list \<Rightarrow> proc \<Rightarrow> proc" where
  "sensor_proxy_signal_handler source changedProperties invalidatedProperties p =
     (case changedProperties ''AccelerometerOrientation'' of
        None \<Rightarrow> p
      | Some orientation \<Rightarrow>
          put (''rotate'', [orientation])
            (log_call DEBUG ''dbus signal: orientation change: %s'' [orientation] p))"

text \<open>The main loop of \<^verbatim>\<open>dbus_events_watcher\<close> runs the callback once for each signal.\<close>

fun dbus_events_watcher ::
  "(string \<times> (string \<rightharpoonup> pyval) \<times> string list) list \<Rightarrow> proc \<Rightarrow> proc" where
  "dbus_events_watcher [] p = p"
| "dbus_events_watcher ((source, changed, invalidated) # signals) p =
     dbus_events_watcher signals (sensor_proxy_signal_handler source changed invalidated p)"

text \<open>
  The body of the \<^verbatim>\<open>for\<close> loop of \<^verbatim>\<open>stylus_events_watcher\<close>;
  \<^verbatim>\<open>line.split(b' ')[1]\<close> raises \<^verbatim>\<open>IndexError\<close> when the line has no space.
\<close>

definition stylus_events_watcher_step :: "bytes \<Rightarrow> proc \<Rightarrow> proc \<times> exception option" where
  "stylus_events_watcher_step line p =
     (let p1 = log_call DEBUG ''xinput stdout: %s'' [PBytes line] p
      in if \<not> startswith line ''proximity'' then (p1, None)
         else (case split_on (CHR '' '') line of
                 _ # status # _ \<Rightarrow> (put (''stylus-event'', [PBytes status]) p1, None)
               | _ \<Rightarrow> (p1, Some IndexError)))"

fun stylus_events_watcher_loop :: "bytes list \<Rightarrow> proc \<Rightarrow> proc \<times> exception option" where
  "stylus_events_watcher_loop [] p = (p, None)"
| "stylus_events_watcher_loop (line # lines) p =
     (case stylus_events_watcher_step line p of
        (p', Some e) \<Rightarrow> (p', Some e)
      | (p', None) \<Rightarrow> stylus_events_watcher_loop lines p')"

text \<open>
  \<^verbatim>\<open>stylus_events_watcher\<close>. Given are the outcome of
  \<^verbatim>\<open>check_output(['xinput', '--list', '--name-only'])\<close> (its output, or the exception
  it raises) and the outcome of the \<^verbatim>\<open>Popen\<close> of the proximity test (the lines the
  pipe delivers, or the exception).
\<close>

definition stylus_events_watcher ::
  "exception + bytes \<Rightarrow> exception + bytes list \<Rightarrow> proc \<Rightarrow> proc \<times> exception option" where
  "stylus_events_watcher xinput_output pipe p =
     (case xinput_output of
        Inl e \<Rightarrow> (p, Some e)
      | Inr out \<Rightarrow>
     (case decode out of
        Inl e \<Rightarrow> (p, Some e)
      | Inr text \<Rightarrow>
     (case find (contains ''stylus'') (split_on newline text) of
        None \<Rightarrow> (p, Some (RuntimeError ''stylus not found''))
      | Some stylus \<Rightarrow>
          (let p1 = log_call INFO ''found stylus %s'' [PStr stylus] p
           in (case pipe of
                 Inl e \<Rightarrow> (p1, Some e)
               | Inr pipe_lines \<Rightarrow>
                   stylus_events_watcher_loop pipe_lines
                     (subprocess_Popen [''xinput'', ''test'', ''-proximity'', stylus] p1))))))"

subsection \<open>process_wrapper\<close>

text \<open>
  The watcher body \<^verbatim>\<open>target\<close> is any function of the process state that returns
  (\<open>Some (p, None)\<close>), raises (\<open>Some (p, Some e)\<close>) or runs forever (\<open>None\<close>).
  \<open>put_error\<close> says whether the guarded \<^verbatim>\<open>message_queue.put\<close> itself raises. The
  third item of the message is \<^verbatim>\<open>exc_info\<close>, the triple of \<^verbatim>\<open>sys.exc_info()\<close>.
\<close>

definition process_wrapper ::
  "(message \<Rightarrow> exception option) \<Rightarrow> string \<Rightarrow> (proc \<Rightarrow> (proc \<times> exception option) option) \<Rightarrow>
   proc \<Rightarrow> (proc \<times> exception option) option" where
  "process_wrapper put_error name target p =
     (case target (log_call INFO ''%s started'' [PStr name] p) of
        None \<Rightarrow> None
      | Some (p1, None) \<Rightarrow> Some (p1, None)
      | Some (p1, Some e) \<Rightarrow>
          (let p2 = log_call ERROR ''uncaught exception from process %s:'' [PExcInfo e] p1;
               m = (''exit'', [PStr name, PStr ''uncaught-exception'', PExcInfo e])
           in (case put_error m of
                 None \<Rightarrow> Some (put m p2, None)
               | Some _ \<Rightarrow> Some (p2, None))))"

subsection \<open>The handler\<close>

text \<open>
  The handler object. \<open>cls\<close> is its class, which selects the methods
  (\<^verbatim>\<open>DefaultEventHandler\<close> overrides the stubs of \<^verbatim>\<open>BasicEventHandler\<close>);
  \<open>onboard\<close> is the process id of the on-screen keyboard, \<open>None\<close> while the
  attribute \<^verbatim>\<open>self.onboard\<close> does not exist.
\<close>

datatype handler_class = BasicEventHandler | DefaultEventHandler

record handler =
  cls :: handler_class
  is_tablet :: bool
  wacom :: "string list"
  stylus :: string
  finger_touch :: string
  trackpoint :: string
  touchpad :: string
  onboard :: "nat option"

datatype device_mode = Laptop | Tablet

definition mode_of :: "handler \<Rightarrow> device_mode" where
  "mode_of h = (if is_tablet h then Tablet else Laptop)"

text \<open>
  The environment of the handler, each outcome given the actions so far: whether
  \<^verbatim>\<open>subprocess.call\<close> with an argument vector returns (\<open>None\<close>; the exit status is
  ignored by the source) or raises because the command cannot be launched, whether
  launching the keyboard gives a process id or raises, and whether \<^verbatim>\<open>os.kill\<close>
  raises.
\<close>

record env =
  call :: "action list \<Rightarrow> string list \<Rightarrow> exception option"
  popen :: "action list \<Rightarrow> exception + nat"
  kill :: "action list \<Rightarrow> nat \<Rightarrow> exception option"

type_synonym hstate = "handler \<times> action list"

definition logger :: "level \<Rightarrow> string \<Rightarrow> pyval list \<Rightarrow> action list \<Rightarrow> action list" where
  "logger l fmt args t = t @ [Log l fmt args]"

definition subprocess_call ::
  "env \<Rightarrow> string list \<Rightarrow> action list \<Rightarrow> action list \<times> exception option" where
  "subprocess_call ev argv t = (t @ [Call argv], call ev t argv)"

text \<open>
  \<^verbatim>\<open>for i in [...]: subprocess.call(["xinput", verb, i])\<close>: a call that raises ends
  the loop and the method.
\<close>

fun xinput_each ::
  "env \<Rightarrow> string \<Rightarrow> string list \<Rightarrow> action list \<Rightarrow> action list \<times> exception option" where
  "xinput_each ev verb [] t = (t, None)"
| "xinput_each ev verb (i # rest) t =
     (case subprocess_call ev [''xinput'', verb, i] t of
        (t', Some e) \<Rightarrow> (t', Some e)
      | (t', None) \<Rightarrow> xinput_each ev verb rest t')"

definition xrandr_orientation_map :: "(string \<times> string) list" where
  "xrandr_orientation_map =
     [(''right-up'', ''right''),
      (''normal'', ''normal''),
      (''bottom-up'', ''inverted''),
      (''left-up'', ''left'')]"

definition wacom_orientation_map :: "(string \<times> string) list" where
  "wacom_orientation_map =
     [(''right-up'', ''cw''),
      (''normal'', ''none''),
      (''bottom-up'', ''half''),
      (''left-up'', ''ccw'')]"

text \<open>\<^verbatim>\<open>d[key]\<close> on a dictionary with string keys: \<^verbatim>\<open>KeyError\<close> for any other key.\<close>

fun getitem :: "(string \<times> string) list \<Rightarrow> pyval \<Rightarrow> exception + string" where
  "getitem d (PStr k) = (case map_of d k of None \<Rightarrow> Inl KeyError | Some v \<Rightarrow> Inr v)"
| "getitem d _ = Inl KeyError"

text \<open>
  The list comprehension of \<^verbatim>\<open>initialize\<close>: each non-empty line is decoded and cut
  at the first tab; the first line that cannot be decoded raises.
\<close>

fun wacom_names :: "bytes list \<Rightarrow> exception + string list" where
  "wacom_names [] = Inr []"
| "wacom_names (i # rest) =
     (case decode i of
        Inl e \<Rightarrow> Inl e
      | Inr name \<Rightarrow>
          (case wacom_names rest of
             Inl e \<Rightarrow> Inl e
           | Inr names \<Rightarrow> Inr (hd (split_on tab name) # names)))"

text \<open>
  \<^verbatim>\<open>DefaultEventHandler.initialize\<close>. Given are the outcomes of
  \<^verbatim>\<open>check_output(['xsetwacom', '--list', 'devices'])\<close> and of
  \<^verbatim>\<open>check_output(['xinput', '--list', '--name-only'])\<close>: the output, or the exception
  raised. \<^verbatim>\<open>next\<close> on an exhausted iterator raises \<^verbatim>\<open>StopIteration\<close>.
\<close>

definition initialize ::
  "exception + bytes \<Rightarrow> exception + bytes \<Rightarrow> hstate \<Rightarrow> hstate \<times> exception option" where
  "initialize xsetwacom_output xinput_output s =
     (case s of (h, t) \<Rightarrow>
      (case cls h of
         BasicEventHandler \<Rightarrow> ((h, t), None)
       | DefaultEventHandler \<Rightarrow>
      (case xsetwacom_output of
         Inl e \<Rightarrow> ((h, t), Some e)
       | Inr out \<Rightarrow>
      (case wacom_names (filter (\<lambda>x. x \<noteq> []) (split_on newline out)) of
         Inl e \<Rightarrow> ((h, t), Some e)
       | Inr w \<Rightarrow>
          (let h1 = h\<lparr>wacom := w\<rparr>;
               t1 = foldl (\<lambda>t i. logger INFO ''Wacom device detected: %s'' [PStr i] t) t w
           in (case xinput_output of
                 Inl e \<Rightarrow> ((h1, t1), Some e)
               | Inr out' \<Rightarrow>
              (case decode out' of
                 Inl e \<Rightarrow> ((h1, t1), Some e)
               | Inr text \<Rightarrow>
              (let xinput = split_on newline text
               in (case find (contains ''stylus'') xinput of
                 None \<Rightarrow> ((h1, t1), Some StopIteration)
               | Some a \<Rightarrow>
              (case find (contains ''Finger touch'') xinput of
                 None \<Rightarrow> ((h1\<lparr>stylus := a\<rparr>, t1), Some StopIteration)
               | Some b \<Rightarrow>
              (case find (contains ''TrackPoint'') xinput of
                 None \<Rightarrow> ((h1\<lparr>stylus := a, finger_touch := b\<rparr>, t1), Some StopIteration)
               | Some c \<Rightarrow>
              (case find (contains ''TouchPad'') xinput of
                 None \<Rightarrow>
                   ((h1\<lparr>stylus := a, finger_touch := b, trackpoint := c\<rparr>, t1),
                    Some StopIteration)
               | Some d \<Rightarrow>
                   ((h1\<lparr>stylus := a, finger_touch := b, trackpoint := c, touchpad := d\<rparr>,
                     logger INFO
                       ''xinput devices detected: stylus = %s, finger touch = %s, trackpoint = %s, touchpad = %s''
                       [PStr a, PStr b, PStr c, PStr d] t1),
                    None)))))))))))))"

text \<open>
  \<^verbatim>\<open>BasicEventHandler.__init__\<close>: a fresh object of class \<open>c\<close> has no attribute
  yet; \<^verbatim>\<open>initialize\<close> runs first, then \<^verbatim>\<open>is_tablet\<close> is set.
\<close>

definition blank :: "handler_class \<Rightarrow> handler" where
  "blank c = \<lparr>cls = c, is_tablet = False, wacom = [], stylus = [], finger_touch = [],
               trackpoint = [], touchpad = [], onboard = None\<rparr>"

definition handler_init ::
  "handler_class \<Rightarrow> exception + bytes \<Rightarrow> exception + bytes \<Rightarrow> action list \<Rightarrow>
   exception + hstate" where
  "handler_init c xsetwacom_output xinput_output t =
     (case initialize xsetwacom_output xinput_output (blank c, t) of
        (s, Some e) \<Rightarrow> Inl e
      | ((h, t'), None) \<Rightarrow> Inr (h\<lparr>is_tablet := False\<rparr>, t'))"

text \<open>
  The stubs of \<^verbatim>\<open>BasicEventHandler\<close> execute \<^verbatim>\<open>raise NotImplemented()\<close>:
  calling the constant \<^verbatim>\<open>NotImplemented\<close> is a \<^verbatim>\<open>TypeError\<close>.
\<close>

definition on_tablet_mode :: "env \<Rightarrow> hstate \<Rightarrow> hstate \<times> exception option" where
  "on_tablet_mode ev s =
     (case s of (h, t) \<Rightarrow>
      (case cls h of
         BasicEventHandler \<Rightarrow> ((h, t), Some TypeError)
       | DefaultEventHandler \<Rightarrow>
          (let t1 = logger DEBUG ''on tablet mode'' [] t
           in (case xinput_each ev ''disable'' [trackpoint h, touchpad h] t1 of
                 (t2, Some e) \<Rightarrow> ((h, t2), Some e)
               | (t2, None) \<Rightarrow>
              (case popen ev t2 of
                 Inr pid \<Rightarrow> ((h\<lparr>onboard := Some pid\<rparr>, t2 @ [Popen [''nohup'', ''onboard'']]), None)
               | Inl e \<Rightarrow>
                   ((h, logger WARN ''exception while starting onboard: '' [PExcInfo e] t2),
                    None))))))"

definition on_laptop_mode :: "env \<Rightarrow> hstate \<Rightarrow> hstate \<times> exception option" where
  "on_laptop_mode ev s =
     (case s of (h, t) \<Rightarrow>
      (case cls h of
         BasicEventHandler \<Rightarrow> ((h, t), Some TypeError)
       | DefaultEventHandler \<Rightarrow>
          (let t1 = logger DEBUG ''on laptop mode'' [] t
           in (case xinput_each ev ''enable'' [trackpoint h, touchpad h] t1 of
                 (t2, Some e) \<Rightarrow> ((h, t2), Some e)
               | (t2, None) \<Rightarrow>
              (case onboard h of
                 None \<Rightarrow>
                   ((h, logger WARN ''exception while terminating onboard: ''
                          [PExcInfo AttributeError] t2), None)
               | Some pid \<Rightarrow>
                   (case kill ev t2 pid of
                      None \<Rightarrow> ((h, t2 @ [Kill pid]), None)
                    | Some e \<Rightarrow>
                        ((h, logger WARN ''exception while terminating onboard: ''
                               [PExcInfo e] t2), None)))))))"

text \<open>The \<^verbatim>\<open>for\<close> loop of \<^verbatim>\<open>on_rotate\<close> over \<^verbatim>\<open>self.wacom\<close>.\<close>

fun on_rotate_wacom ::
  "env \<Rightarrow> pyval \<Rightarrow> string list \<Rightarrow> action list \<Rightarrow> action list \<times> exception option" where
  "on_rotate_wacom ev orientation [] t = (t, None)"
| "on_rotate_wacom ev orientation (i # rest) t =
     (case getitem wacom_orientation_map orientation of
        Inl e \<Rightarrow> (t, Some e)
      | Inr v \<Rightarrow>
          (case subprocess_call ev [''xsetwacom'', ''--set'', i, ''rotate'', v] t of
             (t', Some e) \<Rightarrow> (t', Some e)
           | (t', None) \<Rightarrow> on_rotate_wacom ev orientation rest t'))"

definition on_rotate :: "env \<Rightarrow> hstate \<Rightarrow> pyval \<Rightarrow> hstate \<times> exception option" where
  "on_rotate ev s orientation =
     (case s of (h, t) \<Rightarrow>
      (case cls h of
         BasicEventHandler \<Rightarrow> ((h, t), Some TypeError)
       | DefaultEventHandler \<Rightarrow>
          (let t1 = logger DEBUG ''on rotate: %s'' [orientation] t
           in (case getitem xrandr_orientation_map orientation of
                 Inl e \<Rightarrow> ((h, t1), Some e)
               | Inr v \<Rightarrow>
                   (case subprocess_call ev [''xrandr'', ''-o'', v] t1 of
                      (t2, Some e) \<Rightarrow> ((h, t2), Some e)
                    | (t2, None) \<Rightarrow>
                        (case on_rotate_wacom ev orientation (wacom h) t2 of
                           (t3, r) \<Rightarrow> ((h, t3), r)))))))"

definition on_stylus_event :: "hstate \<Rightarrow> pyval \<Rightarrow> hstate \<times> exception option" where
  "on_stylus_event s status =
     (case s of (h, t) \<Rightarrow>
      (case cls h of
         BasicEventHandler \<Rightarrow> ((h, t), Some TypeError)
       | DefaultEventHandler \<Rightarrow> ((h, logger DEBUG ''on stylus event: %s'' [status] t), None)))"

text \<open>\<^verbatim>\<open>BasicEventHandler.on_mode_change\<close>, inherited by every handler class.\<close>

definition on_mode_change :: "env \<Rightarrow> hstate \<Rightarrow> hstate \<times> exception option" where
  "on_mode_change ev s =
     (case s of (h, t) \<Rightarrow>
      (let h1 = h\<lparr>is_tablet := \<not> is_tablet h\<rparr>
       in if is_tablet h1 then on_tablet_mode ev (h1, t) else on_laptop_mode ev (h1, t)))"

subsection \<open>The dispatcher\<close>

text \<open>
  One iteration of the \<^verbatim>\<open>while\<close> loop of \<^verbatim>\<open>run\<close>, for the message that
  \<^verbatim>\<open>message_queue.get()\<close> returned. Unpacking \<^verbatim>\<open>args\<close> into the wrong number
  of names raises \<^verbatim>\<open>ValueError\<close>; an unknown event name matches no branch.
\<close>

definition run_step :: "env \<Rightarrow> hstate \<Rightarrow> message \<Rightarrow> hstate \<times> exception option" where
  "run_step ev s m =
     (case s of (h, t) \<Rightarrow>
      (case m of (event, args) \<Rightarrow>
      (let t1 = logger DEBUG ''received event %s'' [PStr event] t
       in if event = ''exit'' then
            (case args of
               name # reason # rest \<Rightarrow>
                 ((h, logger INFO ''received child exit event from %s caused by %s''
                        [name, reason] t1), None)
             | _ \<Rightarrow> ((h, t1), Some ValueError))
          else if event = ''mode-change'' then on_mode_change ev (h, t1)
          else if event = ''rotate'' then
            (case args of
               [orientation] \<Rightarrow> on_rotate ev (h, t1) orientation
             | _ \<Rightarrow> ((h, t1), Some ValueError))
          else if event = ''stylus-event'' then
            (case args of
               [status] \<Rightarrow> on_stylus_event (h, t1) status
             | _ \<Rightarrow> ((h, t1), Some ValueError))
          else ((h, t1), None))))"

text \<open>
  The loop of \<^verbatim>\<open>run\<close> on the messages that arrive on the queue, in arrival order.
  There is no \<^verbatim>\<open>try\<close> in the loop: an exception raised while a message is handled
  leaves the loop, and the messages behind it stay on the queue. When the queue is
  empty \<^verbatim>\<open>get\<close> blocks. The result is the state, the exception that ended the loop
  (if any) and the messages never popped.
\<close>

fun run_loop ::
  "env \<Rightarrow> hstate \<Rightarrow> message list \<Rightarrow> hstate \<times> exception option \<times> message list" where
  "run_loop ev s [] = (s, None, [])"
| "run_loop ev s (m # ms) =
     (case run_step ev s m of
        (s', Some e) \<Rightarrow> (s', Some e, ms)
      | (s', None) \<Rightarrow> run_loop ev s' ms)"

subsection \<open>Notions of the specification\<close>

text \<open>Processing \<open>n\<close> mode-change events: \<^verbatim>\<open>on_mode_change\<close> is called \<open>n\<close> times.\<close>

primrec on_mode_change_times :: "env \<Rightarrow> nat \<Rightarrow> hstate \<Rightarrow> hstate" where
  "on_mode_change_times ev 0 s = s"
| "on_mode_change_times ev (Suc n) s = on_mode_change_times ev n (fst (on_mode_change ev s))"

text \<open>The four orientation values and the two tables, as the specification lists them.\<close>

definition orientations :: "string list" where
  "orientations = [''normal'', ''right-up'', ''bottom-up'', ''left-up'']"

definition spec_display_rotation :: "string \<Rightarrow> string" where
  "spec_display_rotation orientation =
     (if orientation = ''right-up'' then ''right''
      else if orientation = ''normal'' then ''normal''
      else if orientation = ''bottom-up'' then ''inverted''
      else ''left'')"

definition spec_stylus_rotation :: "string \<Rightarrow> string" where
  "spec_stylus_rotation orientation =
     (if orientation = ''right-up'' then ''cw''
      else if orientation = ''normal'' then ''none''
      else if orientation = ''bottom-up'' then ''half''
      else ''ccw'')"

text \<open>
  The complete records of a byte stream: the pieces that end in a newline, in order.
  What follows the last newline is not a record yet.
\<close>

function complete_records :: "bytes \<Rightarrow> bytes list" where
  "complete_records s =
     (if newline \<in> set s
      then fst (split_first newline s) # complete_records (snd (split_first newline s))
      else [])"
  by pat_completeness auto
termination
proof (relation "measure length")
  show "wf (measure length)" by simp
next
  fix s :: bytes
  assume "newline \<in> set s"
  then have "dropWhile (\<lambda>x. x \<noteq> newline) s \<noteq> []"
    by (simp add: dropWhile_eq_Nil_conv)
  then have "length (tl (dropWhile (\<lambda>x. x \<noteq> newline) s))
               < length (dropWhile (\<lambda>x. x \<noteq> newline) s)"
    by simp
  also have "\<dots> \<le> length s" by (rule length_dropWhile_le)
  finally show "(snd (split_first newline s), s) \<in> measure length"
    by (simp add: split_first_def)
qed

declare complete_records.simps [simp del]

text \<open>One mode-change message for each record that starts with the prefix.\<close>

definition mode_changes_for :: "bytes list \<Rightarrow> message list" where
  "mode_changes_for rs =
     map (\<lambda>r. (''mode-change'', [])) (filter (\<lambda>r. startswith r EV_TABLET_MODE) rs)"

text \<open>
  The accumulated buffer: what the buffer of the wrapper holds, or would hold, once the
  \<^verbatim>\<open>recv\<close> calls before the \<open>N\<close>-th have been made.
\<close>

definition accumulated :: "(nat \<Rightarrow> bytes) \<Rightarrow> SocketWrapper \<Rightarrow> nat \<Rightarrow> bytes" where
  "accumulated recv sw N = buffer sw @ concat (map recv [recvd sw..<N])"

text \<open>The watcher-exit event of the specification, as a queue message.\<close>

definition WatcherExit :: "string \<Rightarrow> string \<Rightarrow> exception \<Rightarrow> message" where
  "WatcherExit name reason e = (''exit'', [PStr name, PStr reason, PExcInfo e])"

text \<open>
  The outcome of the guarded termination step of \<^verbatim>\<open>on_laptop_mode\<close>: the signal sent,
  or the warning logged by the \<^verbatim>\<open>except\<close> branch.
\<close>

definition terminate_outcome :: "env \<Rightarrow> handler \<Rightarrow> action list \<Rightarrow> action" where
  "terminate_outcome ev h t =
     (case onboard h of
        None \<Rightarrow> Log WARN ''exception while terminating onboard: '' [PExcInfo AttributeError]
      | Some pid \<Rightarrow>
          (case kill ev t pid of
             None \<Rightarrow> Kill pid
           | Some e \<Rightarrow> Log WARN ''exception while terminating onboard: '' [PExcInfo e]))"

subsection \<open>A sample machine\<close>

definition sample_xsetwacom :: bytes where
  "sample_xsetwacom = ''Pen stylus'' @ [tab] @ ''id: 10'' @ [newline]"

definition sample_xinput :: bytes where
  "sample_xinput =
     ''Pen stylus'' @ [newline] @ ''Finger touch'' @ [newline] @
     ''TrackPoint'' @ [newline] @ ''TouchPad'' @ [newline]"

definition sample_handler :: handler where
  "sample_handler =
     \<lparr>cls = DefaultEventHandler, is_tablet = False, wacom = [''Pen stylus''],
      stylus = ''Pen stylus'', finger_touch = ''Finger touch'',
      trackpoint = ''TrackPoint'', touchpad = ''TouchPad'', onboard = None\<rparr>"

text \<open>Every command can be launched, the keyboard starts, the signal is delivered.\<close>

definition sample_env :: env where
  "sample_env =
     \<lparr>call = (\<lambda>t argv. None), popen = (\<lambda>t. Inr 4242), kill = (\<lambda>t pid. None)\<rparr>"

text \<open>Two reads that cut the first record inside the prefix; a third record is incomplete.\<close>

definition sample_chunks :: "bytes list" where
  "sample_chunks =
     ['' 40D1BF71-A8'',
      ''2D-4E 000000ff'' @ [newline] @ ''button/power PBTN'' @ [newline] @ '' 40D1'']"

section \<open>Properties\<close>

subsection \<open>Mode changes\<close>

lemma on_mode_change_flips:
  "is_tablet (fst (fst (on_mode_change ev s))) = (\<not> is_tablet (fst s))"
  by (cases s)
     (simp add: on_mode_change_def on_tablet_mode_def on_laptop_mode_def Let_def
           split: handler_class.split sum.split option.split prod.split)

lemma on_mode_change_times_parity:
  "is_tablet (fst (on_mode_change_times ev n s)) = (is_tablet (fst s) \<noteq> odd n)"
  by (induction n arbitrary: s) (auto simp: on_mode_change_flips)

lemma handler_init_laptop:
  "handler_init c xw xi t0 = Inr s \<Longrightarrow> \<not> is_tablet (fst s)"
  by (auto simp: handler_init_def split: prod.splits option.splits)

lemma sample_handler_init:
  "handler_init DefaultEventHandler (Inr sample_xsetwacom) (Inr sample_xinput) [] =
     Inr (sample_handler,
          [Log INFO ''Wacom device detected: %s'' [PStr ''Pen stylus''],
           Log INFO
             ''xinput devices detected: stylus = %s, finger touch = %s, trackpoint = %s, touchpad = %s''
             [PStr ''Pen stylus'', PStr ''Finger touch'', PStr ''TrackPoint'',
              PStr ''TouchPad'']])"
  by code_simp

text \<open>
  C1. A handler of either class that \<^verbatim>\<open>__init__\<close> has built is in laptop mode; after
  \<open>n\<close> calls of \<^verbatim>\<open>on_mode_change\<close> it is in laptop mode if \<open>n\<close> is even and in tablet
  mode if \<open>n\<close> is odd, whatever the hooks did (they may raise) and in every environment. From any state, one
  call changes the mode and two calls give the mode back.
\<close>

theorem mode_after_n_changes:
  assumes "handler_init c xsetwacom_output xinput_output t0 = Inr s0"
  shows "mode_of (fst s0) = Laptop
       \<and> mode_of (fst (on_mode_change_times ev n s0)) = (if even n then Laptop else Tablet)
       \<and> mode_of (fst (fst (on_mode_change ev s))) \<noteq> mode_of (fst s)
       \<and> mode_of (fst (fst (on_mode_change ev (fst (on_mode_change ev s))))) = mode_of (fst s)"
  using handler_init_laptop[OF assms]
  by (simp add: mode_of_def on_mode_change_times_parity on_mode_change_flips)

theorem mode_after_n_changes_witness:
  "mode_of (fst (on_mode_change_times sample_env 3
      (sample_handler,
       [Log INFO ''Wacom device detected: %s'' [PStr ''Pen stylus''],
        Log INFO
          ''xinput devices detected: stylus = %s, finger touch = %s, trackpoint = %s, touchpad = %s''
          [PStr ''Pen stylus'', PStr ''Finger touch'', PStr ''TrackPoint'',
           PStr ''TouchPad'']]))) = Tablet"
  using mode_after_n_changes[OF sample_handler_init, of sample_env 3]
  by simp

subsection \<open>Rotation\<close>

lemma getitem_xrandr:
  "orientation \<in> set orientations \<Longrightarrow>
   getitem xrandr_orientation_map (PStr orientation) = Inr (spec_display_rotation orientation)"
  by (auto simp: orientations_def xrandr_orientation_map_def spec_display_rotation_def)

lemma getitem_wacom:
  "orientation \<in> set orientations \<Longrightarrow>
   getitem wacom_orientation_map (PStr orientation) = Inr (spec_stylus_rotation orientation)"
  by (auto simp: orientations_def wacom_orientation_map_def spec_stylus_rotation_def)

lemma on_rotate_wacom_all:
  assumes "getitem wacom_orientation_map orientation = Inr v"
    and "\<forall>t' args. call ev t' (''xsetwacom'' # args) = None"
  shows "on_rotate_wacom ev orientation ws t =
     (t @ map (\<lambda>i. Call [''xsetwacom'', ''--set'', i, ''rotate'', v]) ws, None)"
  using assms by (induction ws arbitrary: t) (simp_all add: subprocess_call_def)

lemma on_rotate_wacom_initial:
  assumes "getitem wacom_orientation_map orientation = Inr v"
  shows "\<exists>k. fst (on_rotate_wacom ev orientation ws t) =
           t @ take k (map (\<lambda>i. Call [''xsetwacom'', ''--set'', i, ''rotate'', v]) ws)"
proof (induction ws arbitrary: t)
  case Nil
  show ?case by simp
next
  case (Cons i rest)
  let ?c = "Call [''xsetwacom'', ''--set'', i, ''rotate'', v]"
  let ?f = "\<lambda>i. Call [''xsetwacom'', ''--set'', i, ''rotate'', v]"
  show ?case
  proof (cases "call ev t [''xsetwacom'', ''--set'', i, ''rotate'', v]")
    case None
    from Cons.IH[of "t @ [?c]"] obtain k where
      k: "fst (on_rotate_wacom ev orientation rest (t @ [?c])) = (t @ [?c]) @ take k (map ?f rest)"
      by blast
    have "fst (on_rotate_wacom ev orientation (i # rest) t) = t @ take (Suc k) (map ?f (i # rest))"
      using assms None k by (simp add: subprocess_call_def)
    then show ?thesis by blast
  next
    case (Some e)
    have "fst (on_rotate_wacom ev orientation (i # rest) t) = t @ take (Suc 0) (map ?f (i # rest))"
      using assms Some by (simp add: subprocess_call_def)
    then show ?thesis by blast
  qed
qed

text \<open>
  C2. For each of the four orientations the two dictionaries give the values of the
  two tables of the specification. When \<^verbatim>\<open>xrandr\<close> and \<^verbatim>\<open>xsetwacom\<close> can be
  launched, \<^verbatim>\<open>on_rotate\<close> of the default handler logs, then calls \<^verbatim>\<open>xrandr -o\<close>
  with the value of the display table, then calls
  \<^verbatim>\<open>xsetwacom --set <device> rotate\<close> with the value of the stylus table once for each
  detected device, in order; it does nothing else and does not raise. In every
  environment the calls it makes are an initial part of that same list, the display call
  among them: no call ever carries another value.
\<close>

theorem on_rotate_tables:
  assumes "orientation \<in> set orientations" and "cls h = DefaultEventHandler"
  shows "((\<forall>t' args. call ev t' (''xrandr'' # args) = None) \<and>
          (\<forall>t' args. call ev t' (''xsetwacom'' # args) = None) \<longrightarrow>
          on_rotate ev (h, t) (PStr orientation) =
            ((h, t @ [Log DEBUG ''on rotate: %s'' [PStr orientation],
                      Call [''xrandr'', ''-o'', spec_display_rotation orientation]]
                   @ map (\<lambda>i. Call [''xsetwacom'', ''--set'', i, ''rotate'',
                                       spec_stylus_rotation orientation]) (wacom h)),
             None))
       \<and> (\<exists>k. snd (fst (on_rotate ev (h, t) (PStr orientation))) =
                t @ [Log DEBUG ''on rotate: %s'' [PStr orientation],
                     Call [''xrandr'', ''-o'', spec_display_rotation orientation]]
                  @ take k (map (\<lambda>i. Call [''xsetwacom'', ''--set'', i, ''rotate'',
                                             spec_stylus_rotation orientation]) (wacom h)))"
proof (intro conjI impI)
  have x: "getitem xrandr_orientation_map (PStr orientation)
             = Inr (spec_display_rotation orientation)"
    using assms(1) by (rule getitem_xrandr)
  have w: "getitem wacom_orientation_map (PStr orientation)
             = Inr (spec_stylus_rotation orientation)"
    using assms(1) by (rule getitem_wacom)
  let ?t1 = "t @ [Log DEBUG ''on rotate: %s'' [PStr orientation]]"
  let ?t2 = "?t1 @ [Call [''xrandr'', ''-o'', spec_display_rotation orientation]]"
  let ?f = "\<lambda>i. Call [''xsetwacom'', ''--set'', i, ''rotate'', spec_stylus_rotation orientation]"
  {
    assume launch: "(\<forall>t' args. call ev t' (''xrandr'' # args) = None) \<and>
                    (\<forall>t' args. call ev t' (''xsetwacom'' # args) = None)"
    then have all: "on_rotate_wacom ev (PStr orientation) (wacom h) ?t2 =
                      (?t2 @ map ?f (wacom h), None)"
      by (intro on_rotate_wacom_all[OF w]) simp
    show "on_rotate ev (h, t) (PStr orientation) =
            ((h, t @ [Log DEBUG ''on rotate: %s'' [PStr orientation],
                      Call [''xrandr'', ''-o'', spec_display_rotation orientation]]
                   @ map ?f (wacom h)), None)"
      using launch all
      by (simp add: on_rotate_def assms(2) x logger_def subprocess_call_def
            del: getitem.simps)
  }
  show "\<exists>k. snd (fst (on_rotate ev (h, t) (PStr orientation))) =
              t @ [Log DEBUG ''on rotate: %s'' [PStr orientation],
                   Call [''xrandr'', ''-o'', spec_display_rotation orientation]]
                @ take k (map ?f (wacom h))"
  proof (cases "call ev ?t1 [''xrandr'', ''-o'', spec_display_rotation orientation]")
    case None
    from on_rotate_wacom_initial[OF w, of ev "wacom h" ?t2] obtain k where
      k: "fst (on_rotate_wacom ev (PStr orientation) (wacom h) ?t2) = ?t2 @ take k (map ?f (wacom h))"
      by blast
    have "snd (fst (on_rotate ev (h, t) (PStr orientation))) = ?t2 @ take k (map ?f (wacom h))"
      using None k
      by (simp add: on_rotate_def assms(2) x logger_def subprocess_call_def
            case_prod_beta del: getitem.simps)
    then show ?thesis by auto
  next
    case (Some e)
    have "snd (fst (on_rotate ev (h, t) (PStr orientation))) = ?t2 @ take 0 (map ?f (wacom h))"
      using Some
      by (simp add: on_rotate_def assms(2) x logger_def subprocess_call_def
            del: getitem.simps)
    then show ?thesis by (intro exI[of _ 0]) simp
  qed
qed

theorem on_rotate_tables_witness:
  "on_rotate sample_env (sample_handler, []) (PStr ''bottom-up'') =
     ((sample_handler,
       [Log DEBUG ''on rotate: %s'' [PStr ''bottom-up''],
        Call [''xrandr'', ''-o'', ''inverted''],
        Call [''xsetwacom'', ''--set'', ''Pen stylus'', ''rotate'', ''half'']]),
      None)"
  using on_rotate_tables[of "''bottom-up''" sample_handler sample_env "[]"]
  by (simp add: orientations_def sample_handler_def sample_env_def spec_display_rotation_def
        spec_stylus_rotation_def)

subsection \<open>Reading lines from the socket\<close>

lemma read_line_now:
  "newline \<in> set (buffer sw) \<Longrightarrow>
   read_line recv sw =
     Some (fst (split_first newline (buffer sw)),
           sw\<lparr>buffer := snd (split_first newline (buffer sw))\<rparr>)"
  by (subst read_line.simps) (simp add: case_prod_beta)

lemma read_line_later:
  "newline \<notin> set (buffer sw) \<Longrightarrow>
   read_line recv sw =
     read_line recv \<lparr>buffer = buffer sw @ recv (recvd sw), recvd = Suc (recvd sw)\<rparr>"
  by (subst read_line.simps) simp

lemma accumulated_step:
  "recvd sw < N \<Longrightarrow>
   accumulated recv \<lparr>buffer = buffer sw @ recv (recvd sw), recvd = Suc (recvd sw)\<rparr> N
     = accumulated recv sw N"
  by (simp add: accumulated_def upt_conv_Cons)

lemma split_first_append:
  "c \<in> set a \<Longrightarrow>
   split_first c (a @ b) = (fst (split_first c a), snd (split_first c a) @ b)"
  by (simp add: split_first_def takeWhile_append1 dropWhile_append1 dropWhile_eq_Nil_conv)

text \<open>
  When \<^verbatim>\<open>read_line\<close> returns, the buffer accumulated up to that moment holds a
  newline. The rule of the least fixed point is applied to the loop.
\<close>

lemma read_line_Some_accumulated:
  assumes "read_line recv sw = Some y"
  shows "recvd sw \<le> recvd (snd y) \<and> newline \<in> set (accumulated recv sw (recvd (snd y)))"
proof (rule read_line.raw_induct[where P = "\<lambda>recv sw y.
          recvd sw \<le> recvd (snd y) \<and> newline \<in> set (accumulated recv sw (recvd (snd y)))",
        OF _ assms])
  fix rl :: "(nat \<Rightarrow> bytes) \<Rightarrow> SocketWrapper \<Rightarrow> (bytes \<times> SocketWrapper) option"
  fix recv sw y
  assume IH: "\<And>recv sw y. rl recv sw = Some y \<Longrightarrow>
                recvd sw \<le> recvd (snd y) \<and>
                newline \<in> set (accumulated recv sw (recvd (snd y)))"
    and eq: "(if newline \<in> set (buffer sw)
              then case split_first newline (buffer sw) of
                     (ret, rest) \<Rightarrow> Some (ret, sw\<lparr>buffer := rest\<rparr>)
              else rl recv \<lparr>buffer = buffer sw @ recv (recvd sw), recvd = Suc (recvd sw)\<rparr>)
             = Some y"
  show "recvd sw \<le> recvd (snd y) \<and> newline \<in> set (accumulated recv sw (recvd (snd y)))"
  proof (cases "newline \<in> set (buffer sw)")
    case True
    with eq have "recvd (snd y) = recvd sw"
      by (auto simp: case_prod_beta)
    with True show ?thesis by (simp add: accumulated_def)
  next
    case False
    let ?sw = "\<lparr>buffer = buffer sw @ recv (recvd sw), recvd = Suc (recvd sw)\<rparr>"
    from False eq have "rl recv ?sw = Some y" by simp
    from IH[OF this] have le: "Suc (recvd sw) \<le> recvd (snd y)"
      and nl: "newline \<in> set (accumulated recv ?sw (recvd (snd y)))"
      by simp_all
    from le have "recvd sw < recvd (snd y)" by simp
    from accumulated_step[OF this] nl le show ?thesis by simp
  qed
qed

lemma read_line_None:
  assumes "newline \<notin> set (buffer sw)" and "\<forall>k\<ge>recvd sw. newline \<notin> set (recv k)"
  shows "read_line recv sw = None"
proof (cases "read_line recv sw")
  case None
  then show ?thesis .
next
  case (Some y)
  from read_line_Some_accumulated[OF Some]
  have "newline \<in> set (accumulated recv sw (recvd (snd y)))" by simp
  with assms have False by (auto simp: accumulated_def)
  then show ?thesis ..
qed

text \<open>
  C9. \<^verbatim>\<open>read_line\<close> returns only when the accumulated buffer holds a newline. If the
  buffer holds none and no later \<^verbatim>\<open>recv\<close> delivers one, the loop never ends: the call
  does not return (and the loop has no statement that could raise). This is so in
  particular when every \<^verbatim>\<open>recv\<close> returns the empty byte string, as after the peer
  closed the connection.
\<close>

theorem read_line_needs_newline:
  "(read_line recv sw = Some y \<longrightarrow>
      recvd sw \<le> recvd (snd y) \<and> newline \<in> set (accumulated recv sw (recvd (snd y))))
   \<and> (newline \<notin> set (buffer sw) \<and> (\<forall>k\<ge>recvd sw. newline \<notin> set (recv k)) \<longrightarrow>
        read_line recv sw = None)
   \<and> (newline \<notin> set (buffer sw) \<longrightarrow> read_line (\<lambda>k. []) sw = None)"
  using read_line_Some_accumulated[of recv sw y] read_line_None[of sw recv]
    read_line_None[of sw "\<lambda>k. []"]
  by simp

theorem read_line_needs_newline_witness:
  "read_line (\<lambda>k. []) \<lparr>buffer = ''button'', recvd = 0\<rparr> = None"
  using read_line_needs_newline[of "\<lambda>k. []" "\<lparr>buffer = ''button'', recvd = 0\<rparr>"]
  by (simp add: newline_def)

subsection \<open>The socket watcher\<close>

lemma read_line_accumulated:
  assumes "newline \<in> set (accumulated recv sw N)" and "recvd sw \<le> N"
  shows "\<exists>sw'. read_line recv sw = Some (fst (split_first newline (accumulated recv sw N)), sw')
               \<and> recvd sw' \<le> N
               \<and> accumulated recv sw' N = snd (split_first newline (accumulated recv sw N))"
  using assms
proof (induction "N - recvd sw" arbitrary: sw)
  case 0
  then have "newline \<in> set (buffer sw)" by (simp add: accumulated_def)
  then show ?case
    using 0(3) by (simp add: read_line_now accumulated_def split_first_append)
next
  case (Suc d)
  show ?case
  proof (cases "newline \<in> set (buffer sw)")
    case True
    then show ?thesis
      using Suc.prems(2) by (simp add: read_line_now accumulated_def split_first_append)
  next
    case False
    let ?sw = "\<lparr>buffer = buffer sw @ recv (recvd sw), recvd = Suc (recvd sw)\<rparr>"
    from Suc.hyps(2) have lt: "recvd sw < N" by simp
    have pe: "accumulated recv ?sw N = accumulated recv sw N"
      using lt by (rule accumulated_step)
    have d: "d = N - recvd ?sw" using Suc.hyps(2) by simp
    have "\<exists>sw'. read_line recv ?sw
                   = Some (fst (split_first newline (accumulated recv ?sw N)), sw')
               \<and> recvd sw' \<le> N
               \<and> accumulated recv sw' N = snd (split_first newline (accumulated recv ?sw N))"
      using Suc.hyps(1)[OF d] Suc.prems(1) lt by (simp add: pe)
    then show ?thesis
      by (simp add: pe read_line_later[OF False])
  qed
qed

lemma read_line_starved:
  assumes "newline \<notin> set (accumulated recv sw N)" and "\<forall>k\<ge>N. newline \<notin> set (recv k)"
  shows "read_line recv sw = None"
proof (rule read_line_None)
  show "newline \<notin> set (buffer sw)" using assms(1) by (simp add: accumulated_def)
  show "\<forall>k\<ge>recvd sw. newline \<notin> set (recv k)"
  proof (intro allI impI)
    fix k assume k: "recvd sw \<le> k"
    show "newline \<notin> set (recv k)"
    proof (cases "k < N")
      case True
      with k have "recv k \<in> set (map recv [recvd sw..<N])" by simp
      with assms(1) show ?thesis by (auto simp: accumulated_def)
    next
      case False
      with assms(2) show ?thesis by simp
    qed
  qed
qed

lemma acpi_events_watcher_queue:
  assumes "\<forall>k\<ge>N. newline \<notin> set (recv k)"
  shows "recvd sw \<le> N \<Longrightarrow>
         queue (snd (acpi_events_watcher n recv (sw, p))) =
           queue p @ mode_changes_for (take n (complete_records (accumulated recv sw N)))"
proof (induction n arbitrary: sw p)
  case 0
  then show ?case by (simp add: mode_changes_for_def)
next
  case (Suc n)
  show ?case
  proof (cases "newline \<in> set (accumulated recv sw N)")
    case True
    from read_line_accumulated[OF True Suc.prems] obtain sw' where
      r: "read_line recv sw = Some (fst (split_first newline (accumulated recv sw N)), sw')"
      and le: "recvd sw' \<le> N"
      and pe: "accumulated recv sw' N = snd (split_first newline (accumulated recv sw N))"
      by blast
    have cr: "complete_records (accumulated recv sw N) =
        fst (split_first newline (accumulated recv sw N))
          # complete_records (accumulated recv sw' N)"
      using True by (subst complete_records.simps) (simp add: pe)
    show ?thesis
      by (simp add: r Suc.IH[OF le] cr mode_changes_for_def acpi_events_watcher_step_def
            put_def log_call_def Let_def)
  next
    case False
    have "read_line recv sw = None" using False assms by (rule read_line_starved)
    moreover have "complete_records (accumulated recv sw N) = []"
      using False by (subst complete_records.simps) simp
    ultimately show ?thesis by (simp add: mode_changes_for_def)
  qed
qed

lemma accumulated_stream_of:
  "accumulated (stream_of cs) SocketWrapper_init (length cs) = concat cs"
proof -
  have "map (stream_of cs) [0..<length cs] = cs"
    by (rule nth_equalityI) (simp_all add: stream_of_def)
  then show ?thesis
    by (simp add: accumulated_def SocketWrapper_init_def)
qed

text \<open>
  C3. Let a byte stream \<open>bs\<close> reach the socket split into the chunks \<open>cs\<close> in any way
  (\<open>concat cs = bs\<close>; chunks may have any length). Once the watcher has gone through at
  least as many iterations as \<open>bs\<close> has complete records, the queue holds exactly one
  mode-change message for each complete record of \<open>bs\<close> that starts with
  \<^verbatim>\<open>EV_TABLET_MODE\<close> and nothing else: the result depends on \<open>bs\<close> only, not on the
  chunk boundaries.
\<close>

theorem acpi_events_watcher_chunking:
  assumes "concat cs = bs" and "length (complete_records bs) \<le> n"
  shows "queue (snd (acpi_events_watcher n (stream_of cs) (SocketWrapper_init, proc_init))) =
           mode_changes_for (complete_records bs)"
proof -
  have far: "\<forall>k\<ge>length cs. newline \<notin> set (stream_of cs k)"
    by (simp add: stream_of_def)
  show ?thesis
    using acpi_events_watcher_queue[OF far, of SocketWrapper_init n proc_init,
            unfolded accumulated_stream_of] assms
    by (simp add: SocketWrapper_init_def proc_init_def)
qed

lemma sample_chunks_records:
  "length (complete_records (concat sample_chunks)) \<le> 2"
  by code_simp

lemma sample_chunks_mode_changes:
  "mode_changes_for (complete_records (concat sample_chunks)) = [(''mode-change'', [])]"
  by code_simp

theorem acpi_events_watcher_chunking_witness:
  "queue (snd (acpi_events_watcher 2 (stream_of sample_chunks) (SocketWrapper_init, proc_init)))
     = [(''mode-change'', [])]"
  using acpi_events_watcher_chunking[OF refl sample_chunks_records] sample_chunks_mode_changes
  by simp

subsection \<open>Input that the watchers ignore\<close>

text \<open>
  C7. A socket record that does not start with \<^verbatim>\<open>EV_TABLET_MODE\<close> leaves the queue as
  it is; a property-change notification without \<^verbatim>\<open>AccelerometerOrientation\<close> has no
  effect at all; a proximity line that does not start with \<^verbatim>\<open>proximity\<close> raises
  nothing and leaves the queue as it is.
\<close>

theorem ignored_input:
  "(\<not> startswith event EV_TABLET_MODE \<longrightarrow>
      queue (acpi_events_watcher_step event p) = queue p)
   \<and> (changedProperties ''AccelerometerOrientation'' = None \<longrightarrow>
        sensor_proxy_signal_handler source changedProperties invalidatedProperties p = p)
   \<and> (\<not> startswith line ''proximity'' \<longrightarrow>
        snd (stylus_events_watcher_step line p) = None
        \<and> queue (fst (stylus_events_watcher_step line p)) = queue p)"
  by (simp add: acpi_events_watcher_step_def sensor_proxy_signal_handler_def
        stylus_events_watcher_step_def log_call_def Let_def)

theorem ignored_input_witness:
  "queue (acpi_events_watcher_step ''button/power PBTN'' proc_init) = []
   \<and> sensor_proxy_signal_handler ''sender''
        [''HasAccelerometer'' \<mapsto> PStr ''true''] [] proc_init = proc_init
   \<and> snd (stylus_events_watcher_step (''motion a[0]=2'' @ [newline]) proc_init) = None
   \<and> queue (fst (stylus_events_watcher_step (''motion a[0]=2'' @ [newline]) proc_init)) = []"
  using ignored_input[of "''button/power PBTN''" proc_init
          "[''HasAccelerometer'' \<mapsto> PStr ''true'']" "''sender''" "[]"
          "''motion a[0]=2'' @ [newline]"]
  by (simp add: startswith_def EV_TABLET_MODE_def proc_init_def)

subsection \<open>The supervisor wrapper\<close>

text \<open>
  When the watcher body raises, \<^verbatim>\<open>process_wrapper\<close> returns normally, whether its
  \<^verbatim>\<open>put\<close> raises or not, and the queue has gained nothing: the message holds the
  \<^verbatim>\<open>exc_info\<close> triple, which cannot be pickled. Whatever the body does, the wrapper
  never ends with an exception.
\<close>

lemma process_wrapper_raise:
  "(target (log_call INFO ''%s started'' [PStr name] p) = Some (p1, Some e) \<longrightarrow>
      (\<exists>p'. process_wrapper put_error name target p = Some (p', None)
            \<and> queue p' = queue p1))
   \<and> process_wrapper put_error name target p \<noteq> Some (p', Some e')"
  by (simp add: process_wrapper_def Let_def put_def log_call_def
        split: option.split prod.split)

text \<open>
  C4. The claim asks for exactly one watcher-exit message on the queue when a watcher
  body raises. Here \<^verbatim>\<open>stylus_events_watcher\<close> finds no stylus among the device names
  and raises \<^verbatim>\<open>RuntimeError\<close>; the \<^verbatim>\<open>put\<close> of \<^verbatim>\<open>process_wrapper\<close> returns, but
  the message is dropped by the feeder thread and the queue stays empty: the dispatcher
  never hears of the failure.
\<close>

theorem process_wrapper_drops_exit:
  "process_wrapper (\<lambda>m. None) ''stylus_events_watcher''
     (\<lambda>p. Some (stylus_events_watcher (Inr (''Keyboard'' @ [newline])) (Inr []) p)) proc_init =
     Some (\<lparr>queue = [],
            actions =
              [Log INFO ''%s started'' [PStr ''stylus_events_watcher''],
               Log ERROR ''uncaught exception from process %s:''
                 [PExcInfo (RuntimeError ''stylus not found'')],
               Dropped (''exit'',
                        [PStr ''stylus_events_watcher'', PStr ''uncaught-exception'',
                         PExcInfo (RuntimeError ''stylus not found'')])]\<rparr>,
           None)"
  by code_simp

subsection \<open>The dispatcher\<close>

lemma run_loop_append:
  "run_loop ev s ms = (s1, None, r) \<Longrightarrow> run_loop ev s (ms @ ms') = run_loop ev s1 ms'"
  by (induction ms arbitrary: s) (auto split: prod.splits option.splits)

text \<open>
  C5, as the code has it. Let the dispatcher have handled the messages \<open>ms\<close> without an
  exception. If handling the next message \<open>m\<close> raises \<open>e\<close>, the loop ends with \<open>e\<close> and
  the messages behind \<open>m\<close> are never popped; if it does not raise, the loop goes on with
  them.
\<close>

theorem run_loop_stops_at_raise:
  assumes "run_loop ev s ms = (s1, None, [])"
  shows "(run_step ev s1 m = (s2, Some e) \<longrightarrow>
            run_loop ev s (ms @ m # rest) = (s2, Some e, rest))
       \<and> (run_step ev s1 m = (s2, None) \<longrightarrow>
            run_loop ev s (ms @ m # rest) = run_loop ev s2 rest)"
  by (simp add: run_loop_append[OF assms])

lemma sample_stylus_handled:
  "run_loop sample_env (sample_handler, []) [(''stylus-event'', [PBytes ''in''])] =
     ((sample_handler,
       [Log DEBUG ''received event %s'' [PStr ''stylus-event''],
        Log DEBUG ''on stylus event: %s'' [PBytes ''in'']]), None, [])"
  by code_simp

lemma sample_rotate_raises:
  "run_step sample_env
     (sample_handler,
      [Log DEBUG ''received event %s'' [PStr ''stylus-event''],
       Log DEBUG ''on stylus event: %s'' [PBytes ''in'']])
     (''rotate'', [PStr ''undefined'']) =
     ((sample_handler,
       [Log DEBUG ''received event %s'' [PStr ''stylus-event''],
        Log DEBUG ''on stylus event: %s'' [PBytes ''in''],
        Log DEBUG ''received event %s'' [PStr ''rotate''],
        Log DEBUG ''on rotate: %s'' [PStr ''undefined'']]), Some KeyError)"
  by code_simp

theorem run_loop_stops_at_raise_witness:
  "run_loop sample_env (sample_handler, [])
     [(''stylus-event'', [PBytes ''in'']), (''rotate'', [PStr ''undefined'']),
      (''mode-change'', [])] =
     ((sample_handler,
       [Log DEBUG ''received event %s'' [PStr ''stylus-event''],
        Log DEBUG ''on stylus event: %s'' [PBytes ''in''],
        Log DEBUG ''received event %s'' [PStr ''rotate''],
        Log DEBUG ''on rotate: %s'' [PStr ''undefined'']]),
      Some KeyError, [(''mode-change'', [])])"
  using run_loop_stops_at_raise[OF sample_stylus_handled,
          of "(''rotate'', [PStr ''undefined''])" _ KeyError "[(''mode-change'', [])]"]
        sample_rotate_raises
  by simp

text \<open>
  C5, as the claim states it, fails: the sensor reports the orientation
  \<^verbatim>\<open>undefined\<close>, which is in neither table, so \<^verbatim>\<open>on_rotate\<close> raises
  \<^verbatim>\<open>KeyError\<close>; the mode-change message queued behind it is never popped and the
  handler stays in laptop mode.
\<close>

theorem run_loop_raise_counterexample:
  "run_loop sample_env (sample_handler, [])
     [(''rotate'', [PStr ''undefined'']), (''mode-change'', [])] =
     ((sample_handler,
       [Log DEBUG ''received event %s'' [PStr ''rotate''],
        Log DEBUG ''on rotate: %s'' [PStr ''undefined'']]),
      Some KeyError, [(''mode-change'', [])])"
  by code_simp

text \<open>
  C6. For a watcher-exit message the dispatcher makes its two \<^verbatim>\<open>logger\<close> calls (the
  received event, then the name and the reason) and nothing else: the handler object is
  unchanged, no handler method has run, and no exception is raised.
\<close>

theorem exit_only_logs:
  "run_step ev (h, t) (''exit'', name # reason # rest) =
     ((h, t @ [Log DEBUG ''received event %s'' [PStr ''exit''],
               Log INFO ''received child exit event from %s caused by %s'' [name, reason]]),
      None)"
  by (simp add: run_step_def logger_def)

theorem exit_only_logs_witness:
  "run_step sample_env (sample_handler, [])
     (WatcherExit ''acpi_events_watcher'' ''uncaught-exception'' (OSError ''connect'')) =
     ((sample_handler,
       [Log DEBUG ''received event %s'' [PStr ''exit''],
        Log INFO ''received child exit event from %s caused by %s''
          [PStr ''acpi_events_watcher'', PStr ''uncaught-exception'']]),
      None)"
  using exit_only_logs[of sample_env sample_handler "[]" "PStr ''acpi_events_watcher''"
          "PStr ''uncaught-exception''" "[PExcInfo (OSError ''connect'')]"]
  by (simp add: WatcherExit_def)

subsection \<open>Leaving tablet mode\<close>

text \<open>
  C10. \<^verbatim>\<open>on_laptop_mode\<close> of the default handler logs and calls \<^verbatim>\<open>xinput enable\<close>
  for the trackpoint and then for the touchpad. When these two calls return, the
  termination step comes next and the method returns normally whatever that step does:
  its outcome is one more action, the signal sent or the warning logged by the handler of
  the exception. When the attribute \<^verbatim>\<open>onboard\<close> does not exist, that action is the
  warning for the \<^verbatim>\<open>AttributeError\<close>. An exception that does leave the method is one
  that \<^verbatim>\<open>subprocess.call\<close> raised because \<^verbatim>\<open>xinput\<close> could not be launched; the
  termination step has not run then. So the termination step never runs before both
  calls were made, and never lets an exception out.
\<close>

theorem on_laptop_mode_guarded:
  assumes "cls h = DefaultEventHandler"
  shows "(let t1 = t @ [Log DEBUG ''on laptop mode'' []];
              c1 = [''xinput'', ''enable'', trackpoint h];
              c2 = [''xinput'', ''enable'', touchpad h];
              t3 = t1 @ [Call c1, Call c2]
          in (call ev t1 c1 = None \<and> call ev (t1 @ [Call c1]) c2 = None \<longrightarrow>
                on_laptop_mode ev (h, t) = ((h, t3 @ [terminate_outcome ev h t3]), None))
           \<and> (snd (on_laptop_mode ev (h, t)) = Some e \<longrightarrow>
                call ev t1 c1 = Some e
                  \<and> on_laptop_mode ev (h, t) = ((h, t1 @ [Call c1]), Some e)
                \<or> call ev t1 c1 = None \<and> call ev (t1 @ [Call c1]) c2 = Some e
                  \<and> on_laptop_mode ev (h, t) = ((h, t3), Some e))
           \<and> (onboard h = None \<longrightarrow>
                terminate_outcome ev h t3
                  = Log WARN ''exception while terminating onboard: ''
                      [PExcInfo AttributeError]))"
  using assms
  by (auto simp: on_laptop_mode_def terminate_outcome_def logger_def subprocess_call_def
        Let_def split: option.splits)

theorem on_laptop_mode_guarded_witness:
  "on_laptop_mode sample_env (sample_handler, []) =
     ((sample_handler,
       [Log DEBUG ''on laptop mode'' [],
        Call [''xinput'', ''enable'', ''TrackPoint''],
        Call [''xinput'', ''enable'', ''TouchPad''],
        Log WARN ''exception while terminating onboard: '' [PExcInfo AttributeError]]),
      None)"
  using on_laptop_mode_guarded[of sample_handler "[]" sample_env]
  by (simp add: sample_handler_def sample_env_def Let_def terminate_outcome_def)

end
